theory Spec2Isabelle
  imports Main "HOL-Library.Sublist"
begin

section \<open>JavaScript values and exceptions\<close>

text \<open>
  The values the adapter handles are the ones \<^verbatim>\<open>response.json()\<close> produces, plus
  \<^verbatim>\<open>undefined\<close>, which a property read yields for an absent property. An object is
  kept as the list of its own enumerable properties in key enumeration order (the order
  \<^verbatim>\<open>Object.keys\<close> reports); a property read takes the first binding of a key.
  Numbers are carried along unchanged; the only number the adapter computes is a length.
\<close>

datatype jsval =
    JUndefined
  | JNull
  | JBool bool
  | JNum int
  | JStr string
  | JArr "jsval list"
  | JObj "(string \<times> jsval) list"

datatype exn = TypeError | SyntaxError

type_synonym 'a result = "exn + 'a"

definition bind_result :: "'a result \<Rightarrow> ('a \<Rightarrow> 'b result) \<Rightarrow> 'b result" where
  "bind_result r f = (case r of Inl e \<Rightarrow> Inl e | Inr v \<Rightarrow> f v)"

section \<open>String methods used by the adapter\<close>

text \<open>
  \<^verbatim>\<open>s.replace(pat, rep)\<close> with a string pattern replaces the first occurrence of
  \<^verbatim>\<open>pat\<close> only, wherever it stands. (The replacement \<^verbatim>\<open>'ws'\<close> has no dollar
  pattern, so it is inserted literally.)
\<close>

fun String_replace :: "string \<Rightarrow> string \<Rightarrow> string \<Rightarrow> string" where
  "String_replace [] pat rep = (if pat = [] then rep else [])"
| "String_replace (c # cs) pat rep =
     (if take (length pat) (c # cs) = pat then rep @ drop (length pat) (c # cs)
      else c # String_replace cs pat rep)"

definition String_endsWith :: "string \<Rightarrow> string \<Rightarrow> bool" where
  "String_endsWith s suf =
     (length suf \<le> length s \<and> drop (length s - length suf) s = suf)"

text \<open>\<^verbatim>\<open>s.slice(b, e)\<close>: a negative index counts from the end, both are clamped.\<close>

definition String_slice :: "string \<Rightarrow> int \<Rightarrow> int \<Rightarrow> string" where
  "String_slice s b e =
     (let n = int (length s);
          from = (if b < 0 then max (n + b) 0 else min b n);
          to = (if e < 0 then max (n + e) 0 else min e n)
      in take (nat (to - from)) (drop (nat from) s))"

text \<open>Template literals print \<^verbatim>\<open>${refresh}\<close> for \<^verbatim>\<open>refresh?: boolean | undefined\<close>.\<close>

fun String_of_refresh :: "bool option \<Rightarrow> string" where
  "String_of_refresh None = ''undefined''"
| "String_of_refresh (Some True) = ''true''"
| "String_of_refresh (Some False) = ''false''"

section \<open>Reading parsed values\<close>

text \<open>Array indices as property keys: the decimal numeral of the index.\<close>

fun dec :: "nat \<Rightarrow> string" where
  "dec n = (if n < 10 then [''0123456789'' ! n]
            else dec (n div 10) @ [''0123456789'' ! (n mod 10)])"

definition indexed :: "jsval list \<Rightarrow> (string \<times> jsval) list" where
  "indexed xs = zip (map dec [0..<length xs]) xs"

text \<open>
  A property read \<^verbatim>\<open>v.p\<close> or \<^verbatim>\<open>v[p]\<close>. Reading from \<^verbatim>\<open>undefined\<close> or
  \<^verbatim>\<open>null\<close> throws a TypeError; an absent property reads as \<^verbatim>\<open>undefined\<close>.
  Inherited properties other than \<^verbatim>\<open>length\<close> are left out: the adapter reads
  \<^verbatim>\<open>result\<close>, \<^verbatim>\<open>version_info\<close>, \<^verbatim>\<open>version\<close>, \<^verbatim>\<open>remote_version\<close>,
  \<^verbatim>\<open>commits_behind\<close>, \<^verbatim>\<open>package_list\<close>, \<^verbatim>\<open>length\<close>, and the own keys that
  \<^verbatim>\<open>Object.keys\<close> reported.
\<close>

fun get :: "jsval \<Rightarrow> string \<Rightarrow> jsval result" where
  "get JUndefined p = Inl TypeError"
| "get JNull p = Inl TypeError"
| "get (JBool b) p = Inr JUndefined"
| "get (JNum n) p = Inr JUndefined"
| "get (JStr s) p =
     Inr (if p = ''length'' then JNum (int (length s))
          else (case map_of (indexed (map (\<lambda>c. JStr [c]) s)) p of
                  None \<Rightarrow> JUndefined | Some v \<Rightarrow> v))"
| "get (JArr xs) p =
     Inr (if p = ''length'' then JNum (int (length xs))
          else (case map_of (indexed xs) p of None \<Rightarrow> JUndefined | Some v \<Rightarrow> v))"
| "get (JObj kvs) p = Inr (case map_of kvs p of None \<Rightarrow> JUndefined | Some v \<Rightarrow> v)"

fun Object_keys :: "jsval \<Rightarrow> string list result" where
  "Object_keys JUndefined = Inl TypeError"
| "Object_keys JNull = Inl TypeError"
| "Object_keys (JBool b) = Inr []"
| "Object_keys (JNum n) = Inr []"
| "Object_keys (JStr s) = Inr (map dec [0..<length s])"
| "Object_keys (JArr xs) = Inr (map dec [0..<length xs])"
| "Object_keys (JObj kvs) = Inr (map fst kvs)"

text \<open>\<^verbatim>\<open>xs.map(f)\<close> calls \<^verbatim>\<open>f\<close> from left to right and stops at the first throw.\<close>

fun Array_map :: "('a \<Rightarrow> 'b result) \<Rightarrow> 'a list \<Rightarrow> 'b list result" where
  "Array_map f [] = Inr []"
| "Array_map f (x # xs) =
     bind_result (f x) (\<lambda>y. bind_result (Array_map f xs) (\<lambda>ys. Inr (y # ys)))"

section \<open>The platform: network and sockets\<close>

datatype http_method = GET | POST

record request = "method" :: http_method  url :: string

text \<open>
  Of a response the adapter reads \<^verbatim>\<open>ok\<close> (a status in the range 200 to 299) and
  \<^verbatim>\<open>json()\<close>; \<open>json\<close> is \<open>None\<close> when the body is not JSON and the parse rejects.
\<close>

record response =
  ok :: bool
  json :: "jsval option"

datatype fetch_outcome = Rejects exn | Fulfils response

text \<open>A socket handle is the index of the socket in the table of sockets ever created.\<close>

type_synonym handle = nat

record WS =
  ws_url :: string
  ws_closed :: bool

text \<open>
  The world outside the adapter: how the network answers a request, which URLs the
  socket constructor accepts (it throws on the others), the requests issued so far, the
  rejections of promises that nobody handles, and the sockets created so far.
\<close>

record world =
  network :: "request \<Rightarrow> fetch_outcome"
  WS_accepts :: "string \<Rightarrow> bool"
  requests :: "request list"
  unhandled :: "exn list"
  sockets :: "WS list"

definition fetch :: "request \<Rightarrow> world \<Rightarrow> response result \<times> world" where
  "fetch req w =
     ((case network w req of Rejects e \<Rightarrow> Inl e | Fulfils r \<Rightarrow> Inr r),
      w\<lparr>requests := requests w @ [req]\<rparr>)"

definition response_json :: "response \<Rightarrow> jsval result" where
  "response_json r = (case json r of None \<Rightarrow> Inl SyntaxError | Some v \<Rightarrow> Inr v)"

definition new_WS :: "string \<Rightarrow> world \<Rightarrow> handle result \<times> world" where
  "new_WS u w =
     (if WS_accepts w u
      then (Inr (length (sockets w)),
            w\<lparr>sockets := sockets w @ [\<lparr>ws_url = u, ws_closed = False\<rparr>]\<rparr>)
      else (Inl SyntaxError, w))"

text \<open>A promise that is dropped with no handler: its rejection, if any, is unhandled.\<close>

definition floating :: "'a result \<Rightarrow> world \<Rightarrow> world" where
  "floating p w = (case p of Inl e \<Rightarrow> w\<lparr>unhandled := unhandled w @ [e]\<rparr> | Inr v \<Rightarrow> w)"

text \<open>
  The two shape guards are imported from \<^verbatim>\<open>./RemoteAPI\<close>; the adapter is
  parametrised by them.
\<close>

record RemoteAPI =
  isUpdateRepositoryStatus :: "jsval \<Rightarrow> bool"
  isSystemUpdateStatus :: "jsval \<Rightarrow> bool"

text \<open>
  Modelled from the spec: the guard \<^verbatim>\<open>isUpdateRepositoryStatus\<close> of
  \<^verbatim>\<open>./RemoteAPI\<close>, whose source is missing. A raw entry matches the repository shape
  when it has \<^verbatim>\<open>remote_version\<close> and a \<^verbatim>\<open>commits_behind\<close> sequence.
\<close>

definition isUpdateRepositoryStatus_spec :: "jsval \<Rightarrow> bool" where
  "isUpdateRepositoryStatus_spec v =
     (case v of
        JObj kvs \<Rightarrow>
          map_of kvs ''remote_version'' \<noteq> None \<and>
          (case map_of kvs ''commits_behind'' of Some (JArr xs) \<Rightarrow> True | _ \<Rightarrow> False)
      | _ \<Rightarrow> False)"

text \<open>
  Modelled from the spec: the guard \<^verbatim>\<open>isSystemUpdateStatus\<close> of \<^verbatim>\<open>./RemoteAPI\<close>,
  whose source is missing; the system-package shape is the one that has
  \<^verbatim>\<open>package_list\<close>.
\<close>

definition isSystemUpdateStatus_spec :: "jsval \<Rightarrow> bool" where
  "isSystemUpdateStatus_spec v =
     (case v of JObj kvs \<Rightarrow> map_of kvs ''package_list'' \<noteq> None | _ \<Rightarrow> False)"

text \<open>
  Modelled from the spec: the module \<^verbatim>\<open>./RemoteAPI\<close>, whose source is missing, with
  the two guards above.
\<close>

definition RemoteAPI_spec :: RemoteAPI where
  "RemoteAPI_spec =
     \<lparr>isUpdateRepositoryStatus = isUpdateRepositoryStatus_spec,
      isSystemUpdateStatus = isSystemUpdateStatus_spec\<rparr>"

section \<open>The Moonraker adapter\<close>

datatype connection_type = moonraker | octoprint | none

record adapter =
  connectionType :: connection_type
  connectionAddress :: string
  connectionAPIKey :: "string option"
  socket :: "handle option"

definition MoonrakerRemotePrinter :: "string \<Rightarrow> string option \<Rightarrow> adapter" where
  "MoonrakerRemotePrinter address apiKey =
     \<lparr>connectionType = moonraker, connectionAddress = address,
      connectionAPIKey = apiKey, socket = None\<rparr>"

definition buildConnectionURL :: "adapter \<Rightarrow> bool \<Rightarrow> string" where
  "buildConnectionURL this websocket =
     (let url = connectionAddress this;
          url = (if websocket then String_replace url ''http'' ''ws'' else url);
          url = (if String_endsWith url ''/'' then String_slice url 0 (- 1) else url)
      in url)"

text \<open>
  Every operation takes the adapter and the world and returns how it settles (\<open>Inl\<close>: it
  throws, or its promise rejects), the adapter and the world afterwards.
\<close>

definition openSocketConnection :: "adapter \<Rightarrow> world \<Rightarrow> handle result \<times> adapter \<times> world" where
  "openSocketConnection this w =
     (case new_WS (buildConnectionURL this True @ ''/websocket'') w of
        (Inl e, w') \<Rightarrow> (Inl e, this, w')
      | (Inr s, w') \<Rightarrow> (Inr s, this\<lparr>socket := Some s\<rparr>, w'))"

definition testConnection :: "adapter \<Rightarrow> world \<Rightarrow> bool result \<times> adapter \<times> world" where
  "testConnection this w =
     (let url = buildConnectionURL this False;
          (p, w') = fetch \<lparr>method = GET, url = url\<rparr> w
      in (case p of
            Inr response \<Rightarrow> if ok response then (Inr True, this, w') else (Inr False, this, w')
          | Inl error \<Rightarrow> (Inr False, this, w')))"

definition emergencyStop :: "adapter \<Rightarrow> world \<Rightarrow> unit result \<times> adapter \<times> world" where
  "emergencyStop this w =
     (let (p, w') = fetch \<lparr>method = POST,
                           url = buildConnectionURL this False @ ''/printer/emergency_stop''\<rparr> w
      in (Inr (), this, floating p w'))"

definition restart :: "adapter \<Rightarrow> world \<Rightarrow> unit result \<times> adapter \<times> world" where
  "restart this w =
     (let (p, w') = fetch \<lparr>method = POST,
                           url = buildConnectionURL this False @ ''/printer/restart''\<rparr> w
      in (Inr (), this, floating p w'))"

definition firmwareRestart :: "adapter \<Rightarrow> world \<Rightarrow> unit result \<times> adapter \<times> world" where
  "firmwareRestart this w =
     (let (p, w') = fetch \<lparr>method = POST,
                           url = buildConnectionURL this False @ ''/printer/firmware_restart''\<rparr> w
      in (Inr (), this, floating p w'))"

text \<open>The callback of \<^verbatim>\<open>modules.map\<close>: one raw module to its entry, or \<^verbatim>\<open>null\<close>.\<close>

definition moduleEntry :: "RemoteAPI \<Rightarrow> jsval \<Rightarrow> string \<Rightarrow> jsval result" where
  "moduleEntry api versionInfo module =
     bind_result (get versionInfo module) (\<lambda>v.
       if v \<noteq> JUndefined then
         bind_result (get versionInfo module) (\<lambda>moduleVersion.
           if moduleVersion = JUndefined then Inr JNull
           else if isUpdateRepositoryStatus api moduleVersion then
             bind_result (get moduleVersion ''version'') (\<lambda>local.
             bind_result (get moduleVersion ''remote_version'') (\<lambda>remote.
             bind_result (get moduleVersion ''commits_behind'') (\<lambda>behind.
             bind_result (get behind ''length'') (\<lambda>len.
               Inr (JObj [(''local'', local), (''remote'', remote),
                          (''commits_behind'', len)])))))
           else if isSystemUpdateStatus api moduleVersion then
             bind_result (get moduleVersion ''package_list'') (\<lambda>package_list.
               Inr (JObj [(''packages'', package_list)]))
           else Inr JNull)
       else Inr JNull)"

text \<open>The second \<^verbatim>\<open>then\<close> handler: from the parsed envelope to the module entries.\<close>

definition moduleInfo :: "RemoteAPI \<Rightarrow> jsval \<Rightarrow> jsval result" where
  "moduleInfo api updateStatus =
     bind_result (get updateStatus ''result'') (\<lambda>result.
     bind_result (get result ''version_info'') (\<lambda>versionInfo.
     bind_result (Object_keys versionInfo) (\<lambda>modules.
     bind_result (Array_map (moduleEntry api versionInfo) modules) (\<lambda>mapped.
       Inr (JArr (filter (\<lambda>module. module \<noteq> JNull) mapped))))))"

text \<open>The template literal that \<^verbatim>\<open>checkForUpdates\<close> passes to \<^verbatim>\<open>fetch\<close>.\<close>

definition updateStatusURL :: "adapter \<Rightarrow> bool option \<Rightarrow> string" where
  "updateStatusURL this refresh =
     buildConnectionURL this False @ ''/machine/update / status ? refresh = ''
       @ String_of_refresh refresh"

definition checkForUpdates ::
  "RemoteAPI \<Rightarrow> adapter \<Rightarrow> bool option \<Rightarrow> world \<Rightarrow> jsval result \<times> adapter \<times> world" where
  "checkForUpdates api this refresh w =
     (let (p, w') = fetch \<lparr>method = POST, url = updateStatusURL this refresh\<rparr> w;
          p = bind_result p (\<lambda>response.
                if \<not> ok response then Inr JNull else response_json response);
          p = bind_result p (\<lambda>updateStatus. moduleInfo api updateStatus);
          p = (case p of Inl err \<Rightarrow> Inr JNull | Inr v \<Rightarrow> Inr v)
      in (p, this, w'))"

section \<open>The material usage model and its association\<close>

text \<open>
  A row of \<^verbatim>\<open>material_usage\<close>, with the attributes that \<^verbatim>\<open>initialize\<close> declares.
  The weight and the time stamps are carried along unchanged: their types are parameters.
\<close>

record ('f, 'd) MaterialUsage =
  materialUsageId :: int
  materialId :: int
  weightUsed :: 'f
  createdAt :: 'd
  updatedAt :: 'd

datatype referential_action = RESTRICT | CASCADE

record belongsTo_options =
  foreignKey :: string
  targetKey :: string
  onDelete :: referential_action
  onUpdate :: referential_action
  as_name :: string

text \<open>The options that \<^verbatim>\<open>associate\<close> passes to \<^verbatim>\<open>belongsTo\<close> (\<open>as_name\<close> is \<^verbatim>\<open>as\<close>).\<close>

definition associate :: belongsTo_options where
  "associate =
     \<lparr>foreignKey = ''materialId'', targetKey = ''materialId'', onDelete = RESTRICT,
      onUpdate = CASCADE, as_name = ''material''\<rparr>"

text \<open>The integer columns of a row, read and written by attribute name.\<close>

definition integer_column :: "string \<Rightarrow> ('f, 'd) MaterialUsage \<Rightarrow> int option" where
  "integer_column c u =
     (if c = ''materialUsageId'' then Some (materialUsageId u)
      else if c = ''materialId'' then Some (materialId u)
      else None)"

definition set_integer_column ::
  "string \<Rightarrow> int \<Rightarrow> ('f, 'd) MaterialUsage \<Rightarrow> ('f, 'd) MaterialUsage" where
  "set_integer_column c v u =
     (if c = ''materialUsageId'' then u\<lparr>materialUsageId := v\<rparr>
      else if c = ''materialId'' then u\<lparr>materialId := v\<rparr>
      else u)"

text \<open>
  Modelled from the spec: the persistence collaborator, that is the model
  \<^verbatim>\<open>./Material\<close>, whose source is missing, and the store behind the two models. A
  material is identified by its \<^verbatim>\<open>materialId\<close>; the store keeps the identifiers of the
  materials and the usage rows.
\<close>

record ('f, 'd) store =
  materials :: "int list"
  material_usage :: "('f, 'd) MaterialUsage list"

datatype store_error = ForeignKeyConstraintError

text \<open>
  Modelled from the spec: a usage row references the material \<open>m\<close> under the options
  when its foreign key column holds \<open>m\<close>.
\<close>

definition references :: "belongsTo_options \<Rightarrow> int \<Rightarrow> ('f, 'd) MaterialUsage \<Rightarrow> bool" where
  "references opts m u \<longleftrightarrow> integer_column (foreignKey opts) u = Some m"

text \<open>
  Modelled from the spec: deleting a material in the store, which is missing from the
  source. Under restrict-on-delete the deletion is rejected while usage records reference
  the material; under cascade the referencing records go with it.
\<close>

definition destroyMaterial ::
  "belongsTo_options \<Rightarrow> int \<Rightarrow> ('f, 'd) store \<Rightarrow> (store_error + unit) \<times> ('f, 'd) store" where
  "destroyMaterial opts m db =
     (if m \<notin> set (materials db) then (Inr (), db)
      else (case onDelete opts of
              RESTRICT \<Rightarrow>
                if list_ex (references opts m) (material_usage db)
                then (Inl ForeignKeyConstraintError, db)
                else (Inr (), db\<lparr>materials := removeAll m (materials db)\<rparr>)
            | CASCADE \<Rightarrow>
                (Inr (), db\<lparr>materials := removeAll m (materials db),
                            material_usage :=
                              filter (\<lambda>u. \<not> references opts m u) (material_usage db)\<rparr>)))"

text \<open>
  Modelled from the spec: changing the identifier of a material in the store, which is
  missing from the source. Under cascade-on-update the new identifier is written to the
  foreign key of the usage records that reference the material; under restrict the
  change is rejected while there are such records.
\<close>

definition updateMaterialId ::
  "belongsTo_options \<Rightarrow> int \<Rightarrow> int \<Rightarrow> ('f, 'd) store \<Rightarrow> (store_error + unit) \<times> ('f, 'd) store" where
  "updateMaterialId opts m m' db =
     (if m \<notin> set (materials db) then (Inr (), db)
      else (case onUpdate opts of
              CASCADE \<Rightarrow>
                (Inr (), db\<lparr>materials := map (\<lambda>x. if x = m then m' else x) (materials db),
                            material_usage :=
                              map (\<lambda>u. if references opts m u
                                        then set_integer_column (foreignKey opts) m' u else u)
                                (material_usage db)\<rparr>)
            | RESTRICT \<Rightarrow>
                if list_ex (references opts m) (material_usage db)
                then (Inl ForeignKeyConstraintError, db)
                else (Inr (), db\<lparr>materials := map (\<lambda>x. if x = m then m' else x)
                                                  (materials db)\<rparr>)))"

section \<open>Notions used to state the properties\<close>

text \<open>
  Modelled from the spec: the type \<^verbatim>\<open>UpdateCheckResult\<close> of
  \<^verbatim>\<open>$lib/RemotePrinter/RemotePrinter\<close>, whose source is missing. An entry is one of
  two variants: a repository module with \<^verbatim>\<open>local\<close>, \<^verbatim>\<open>remote\<close> and
  \<^verbatim>\<open>commitsBehind\<close>, or a system package module with \<^verbatim>\<open>packages\<close>.
\<close>

definition UpdateModuleEntry_spec :: "jsval \<Rightarrow> bool" where
  "UpdateModuleEntry_spec e =
     (case e of
        JObj kvs \<Rightarrow> map fst kvs = [''local'', ''remote'', ''commitsBehind'']
                    \<or> map fst kvs = [''packages'']
      | _ \<Rightarrow> False)"

text \<open>
  The guards are type predicates: the source reads \<^verbatim>\<open>commits_behind.length\<close> of a
  value the first one accepts and \<^verbatim>\<open>package_list\<close> of a value the second one accepts.
  They are sound when an accepted value is an object, with an array under
  \<^verbatim>\<open>commits_behind\<close> for the first.
\<close>

definition sound_guards :: "RemoteAPI \<Rightarrow> bool" where
  "sound_guards api \<longleftrightarrow>
     (\<forall>v. isUpdateRepositoryStatus api v \<longrightarrow>
        (\<exists>kvs xs. v = JObj kvs \<and> map_of kvs ''commits_behind'' = Some (JArr xs))) \<and>
     (\<forall>v. isSystemUpdateStatus api v \<longrightarrow> (\<exists>kvs. v = JObj kvs))"

text \<open>
  The parsed body carries a \<^verbatim>\<open>version_info\<close> to enumerate: reading
  \<^verbatim>\<open>updateStatus.result.version_info\<close> does not throw and yields neither
  \<^verbatim>\<open>undefined\<close> nor \<^verbatim>\<open>null\<close>.
\<close>

definition has_version_info :: "jsval \<Rightarrow> bool" where
  "has_version_info updateStatus =
     (case bind_result (get updateStatus ''result'') (\<lambda>result. get result ''version_info'') of
        Inl e \<Rightarrow> False
      | Inr versionInfo \<Rightarrow> versionInfo \<noteq> JUndefined \<and> versionInfo \<noteq> JNull)"

section \<open>Test fixtures\<close>

text \<open>
  A fresh world over a given network, a network that answers every request with the same
  response, one that rejects every request, the envelope around a \<^verbatim>\<open>version_info\<close>
  value, and the adapter of the source's example address.
\<close>

definition fresh_world :: "(request \<Rightarrow> fetch_outcome) \<Rightarrow> world" where
  "fresh_world net =
     \<lparr>network = net, WS_accepts = (\<lambda>u. True), requests = [], unhandled = [], sockets = []\<rparr>"

definition answering :: "response \<Rightarrow> request \<Rightarrow> fetch_outcome" where
  "answering r req = Fulfils r"

definition unreachable :: "request \<Rightarrow> fetch_outcome" where
  "unreachable req = Rejects TypeError"

definition envelope :: "jsval \<Rightarrow> jsval" where
  "envelope versionInfo = JObj [(''result'', JObj [(''version_info'', versionInfo)])]"

definition ok_json :: "jsval \<Rightarrow> response" where
  "ok_json body = \<lparr>ok = True, json = Some body\<rparr>"

definition mainsail :: adapter where
  "mainsail = MoonrakerRemotePrinter ''http://mainsail.local'' None"

text \<open>A world with no network whose socket constructor refuses every URL.\<close>

definition offline_world :: world where
  "offline_world =
     \<lparr>network = unreachable, WS_accepts = (\<lambda>u. False), requests = [], unhandled = [],
      sockets = []\<rparr>"

text \<open>The klipper, moonraker, system payload.\<close>

definition scenario_modules :: "(string \<times> jsval) list" where
  "scenario_modules =
          [(''klipper'', JObj [(''version'', JStr ''v1''), (''remote_version'', JStr ''v2''),
                               (''commits_behind'', JArr [JNum 1, JNum 2, JNum 3])]),
           (''moonraker'', JObj [(''package_list'', JArr [JStr ''a'', JStr ''b''])]),
           (''system'', JBool True)]"

text \<open>What the source emits for that payload.\<close>

definition scenario_entries :: "jsval list" where
  "scenario_entries =
     [JObj [(''local'', JStr ''v1''), (''remote'', JStr ''v2''), (''commits_behind'', JNum 3)],
      JObj [(''packages'', JArr [JStr ''a'', JStr ''b''])]]"

definition scenario_world :: world where
  "scenario_world = fresh_world (answering (ok_json (envelope (JObj scenario_modules))))"

text \<open>A store with the materials 1 and 2 and two usage rows of material 1.\<close>

definition spool_store :: "(int, nat) store" where
  "spool_store =
     \<lparr>materials = [1, 2],
      material_usage =
        [\<lparr>materialUsageId = 1, materialId = 1, weightUsed = 12, createdAt = 0, updatedAt = 0\<rparr>,
         \<lparr>materialUsageId = 2, materialId = 1, weightUsed = 30, createdAt = 5, updatedAt = 5\<rparr>]\<rparr>"

section \<open>Facts about the string methods\<close>

lemma String_endsWith_slash: "String_endsWith s ''/'' \<longleftrightarrow> s \<noteq> [] \<and> last s = CHR ''/''"
proof (cases s rule: rev_cases)
  case Nil
  then show ?thesis by (simp add: String_endsWith_def)
next
  case (snoc ys y)
  then show ?thesis by (auto simp: String_endsWith_def)
qed

lemma String_slice_drop_last: "String_slice s 0 (- 1) = butlast s"
  by (cases s rule: rev_cases) (simp_all add: String_slice_def Let_def)

lemma String_replace_at_head: "String_replace (pat @ r) pat rep = rep @ r"
proof (cases "pat @ r")
  case Nil
  then show ?thesis by simp
next
  case (Cons a list)
  have t: "take (length pat) (a # list) = pat" and d: "drop (length pat) (a # list) = r"
    by (simp_all flip: Cons)
  show ?thesis by (simp add: Cons t d)
qed

lemma String_replace_absent:
  "pat \<noteq> [] \<Longrightarrow> \<not> sublist pat s \<Longrightarrow> String_replace s pat rep = s"
proof (induction s)
  case Nil
  then show ?case by simp
next
  case (Cons c cs)
  have "take (length pat) (c # cs) \<noteq> pat"
  proof
    assume "take (length pat) (c # cs) = pat"
    then have "prefix pat (c # cs)" by (metis take_is_prefix)
    then show False using Cons.prems(2) by (simp add: prefix_imp_sublist)
  qed
  moreover have "\<not> sublist pat cs" using Cons.prems(2) by (auto simp: sublist_Cons_right)
  ultimately show ?case using Cons.IH Cons.prems(1) by simp
qed

lemma String_replace_first:
  "pat \<noteq> [] \<Longrightarrow> \<not> sublist pat (p @ butlast pat) \<Longrightarrow>
   String_replace (p @ pat @ r) pat rep = p @ rep @ r"
proof (induction p)
  case Nil
  then show ?case by (simp add: String_replace_at_head)
next
  case (Cons c cs)
  have "take (length pat) (c # cs @ pat @ r) \<noteq> pat"
  proof
    assume t: "take (length pat) (c # cs @ pat @ r) = pat"
    define q where "q = (c # cs) @ butlast pat"
    have len: "length pat \<le> length q" by (simp add: q_def)
    have "pat = butlast pat @ [last pat]" using Cons.prems(1) by simp
    then have "c # cs @ pat @ r = q @ (last pat # r)"
      unfolding q_def by (metis append.assoc append_Cons append_Nil)
    with t have "take (length pat) (q @ (last pat # r)) = pat" by metis
    then have "take (length pat) q = pat" using len by simp
    then have "take (length pat) ((c # cs) @ butlast pat) = pat" by (simp add: q_def)
    then have "prefix pat ((c # cs) @ butlast pat)" by (metis take_is_prefix)
    then show False using Cons.prems(2) by (simp add: prefix_imp_sublist)
  qed
  moreover have "\<not> sublist pat (cs @ butlast pat)"
    using Cons.prems(2) by (auto simp: sublist_Cons_right)
  ultimately show ?case using Cons.IH Cons.prems(1) by simp
qed

section \<open>The connection URL builder\<close>

lemma buildConnectionURL_rest:
  "buildConnectionURL (this\<lparr>connectionAddress := A\<rparr>) False =
     (if A \<noteq> [] \<and> last A = CHR ''/'' then butlast A else A)"
  by (simp add: buildConnectionURL_def String_endsWith_slash String_slice_drop_last)

lemma buildConnectionURL_websocket:
  "buildConnectionURL (this\<lparr>connectionAddress := A\<rparr>) True =
     buildConnectionURL (this\<lparr>connectionAddress := String_replace A ''http'' ''ws''\<rparr>) False"
  by (simp add: buildConnectionURL_def)

text \<open>
  What the builder does on every address: without the WebSocket flag an address with no
  trailing slash is returned as it is, with or without one slash added; with the flag the
  first \<^verbatim>\<open>http\<close> of the address is rewritten to \<^verbatim>\<open>ws\<close>, wherever it stands,
  and the result is built as without the flag.
\<close>

lemma buildConnectionURL_first_http:
  "(\<not> String_endsWith A ''/'' \<longrightarrow>
      buildConnectionURL (this\<lparr>connectionAddress := A\<rparr>) False = A \<and>
      buildConnectionURL (this\<lparr>connectionAddress := A @ ''/''\<rparr>) False = A) \<and>
   buildConnectionURL (this\<lparr>connectionAddress := ''http'' @ r\<rparr>) True =
     buildConnectionURL (this\<lparr>connectionAddress := ''ws'' @ r\<rparr>) False \<and>
   (\<not> sublist ''http'' (p @ ''htt'') \<longrightarrow>
      buildConnectionURL (this\<lparr>connectionAddress := p @ ''http'' @ r\<rparr>) True =
        buildConnectionURL (this\<lparr>connectionAddress := p @ ''ws'' @ r\<rparr>) False) \<and>
   (\<not> sublist ''http'' A \<longrightarrow>
      buildConnectionURL (this\<lparr>connectionAddress := A\<rparr>) True =
        buildConnectionURL (this\<lparr>connectionAddress := A\<rparr>) False) \<and>
   buildConnectionURL (this\<lparr>connectionAddress := ''http://x''\<rparr>) True = ''ws://x'' \<and>
   buildConnectionURL (this\<lparr>connectionAddress := ''https://x''\<rparr>) True = ''wss://x''"
proof -
  have rest: "\<not> String_endsWith A ''/'' \<longrightarrow>
      buildConnectionURL (this\<lparr>connectionAddress := A\<rparr>) False = A \<and>
      buildConnectionURL (this\<lparr>connectionAddress := A @ ''/''\<rparr>) False = A"
    by (simp add: buildConnectionURL_rest String_endsWith_slash)
  have head: "buildConnectionURL (this\<lparr>connectionAddress := ''http'' @ r\<rparr>) True =
      buildConnectionURL (this\<lparr>connectionAddress := ''ws'' @ r\<rparr>) False"
    by (simp only: buildConnectionURL_websocket String_replace_at_head)
  have first: "\<not> sublist ''http'' (p @ ''htt'') \<longrightarrow>
      buildConnectionURL (this\<lparr>connectionAddress := p @ ''http'' @ r\<rparr>) True =
        buildConnectionURL (this\<lparr>connectionAddress := p @ ''ws'' @ r\<rparr>) False"
    using String_replace_first [of "''http''" p r "''ws''"]
    by (simp add: buildConnectionURL_websocket)
  have absent: "\<not> sublist ''http'' A \<longrightarrow>
      buildConnectionURL (this\<lparr>connectionAddress := A\<rparr>) True =
        buildConnectionURL (this\<lparr>connectionAddress := A\<rparr>) False"
    using String_replace_absent [of "''http''" A "''ws''"]
    by (simp add: buildConnectionURL_websocket)
  have x1: "buildConnectionURL (this\<lparr>connectionAddress := ''http://x''\<rparr>) True = ''ws://x''"
    by (simp add: buildConnectionURL_def String_endsWith_def)
  have x2: "buildConnectionURL (this\<lparr>connectionAddress := ''https://x''\<rparr>) True = ''wss://x''"
    by (simp add: buildConnectionURL_def String_endsWith_def)
  from rest head first absent x1 x2 show ?thesis by blast
qed

text \<open>
  C2. With the WebSocket flag the builder is to rewrite the leading scheme token and no
  \<^verbatim>\<open>http\<close> elsewhere in the address. Evaluated at two addresses whose host contains
  \<^verbatim>\<open>http\<close> and that do not begin with lower-case \<^verbatim>\<open>http\<close>: the replacement is
  not anchored at the start, so the builder leaves the scheme and rewrites the host.
\<close>

theorem buildConnectionURL_rewrites_host:
  "\<not> prefix ''http'' ''HTTP://myhttp.local'' \<and>
   buildConnectionURL (MoonrakerRemotePrinter ''HTTP://myhttp.local'' None) True
     = ''HTTP://myws.local'' \<and>
   \<not> prefix ''http'' ''ftp://myhttp.local'' \<and>
   buildConnectionURL (MoonrakerRemotePrinter ''ftp://myhttp.local'' None) True
     = ''ftp://myws.local''"
  by (simp add: buildConnectionURL_def MoonrakerRemotePrinter_def String_endsWith_def)

section \<open>Facts about results, property reads and the array methods\<close>

lemma bind_result_Inr:
  "bind_result r f = Inr y \<longleftrightarrow> (\<exists>x. r = Inr x \<and> f x = Inr y)"
  by (cases r) (simp_all add: bind_result_def)

lemma bind_result_simps [simp]:
  "bind_result (Inr x) f = f x" "bind_result (Inl e) f = Inl e"
  by (simp_all add: bind_result_def)

lemma Array_map_all2:
  "Array_map f xs = Inr ys \<Longrightarrow> list_all2 (\<lambda>x y. f x = Inr y) xs ys"
proof (induction xs arbitrary: ys)
  case Nil
  then show ?case by simp
next
  case (Cons x xs)
  then show ?case by (auto simp: bind_result_Inr)
qed

lemma all2_filter_subseq:
  "list_all2 P xs ys \<Longrightarrow> \<exists>xs'. subseq xs' xs \<and> list_all2 P xs' (filter Q ys)"
proof (induction xs ys rule: list_all2_induct)
  case Nil
  then show ?case by simp
next
  case (Cons x xs y ys)
  then obtain xs' where s: "subseq xs' xs" and a: "list_all2 P xs' (filter Q ys)" by blast
  show ?case
  proof (cases "Q y")
    case True
    with s a Cons.hyps(1) have "subseq (x # xs') (x # xs) \<and> list_all2 P (x # xs') (filter Q (y # ys))"
      by simp
    then show ?thesis by blast
  next
    case False
    with s a have "subseq xs' (x # xs) \<and> list_all2 P xs' (filter Q (y # ys))" by auto
    then show ?thesis by blast
  qed
qed

lemma moduleEntry_Inr:
  assumes "moduleEntry api vi k = Inr e" and "e \<noteq> JNull"
  shows "\<exists>v. get vi k = Inr v \<and> v \<noteq> JUndefined \<and>
           ((isUpdateRepositoryStatus api v \<and>
             (\<exists>l r b n. get v ''version'' = Inr l \<and> get v ''remote_version'' = Inr r \<and>
                get v ''commits_behind'' = Inr b \<and> get b ''length'' = Inr n \<and>
                e = JObj [(''local'', l), (''remote'', r), (''commits_behind'', n)])) \<or>
            (\<not> isUpdateRepositoryStatus api v \<and> isSystemUpdateStatus api v \<and>
             (\<exists>pl. get v ''package_list'' = Inr pl \<and> e = JObj [(''packages'', pl)])))"
  using assms
  by (auto simp: moduleEntry_def bind_result_Inr split: if_splits)

lemma Array_map_total:
  "(\<forall>x\<in>set xs. \<exists>y. f x = Inr y) \<Longrightarrow> \<exists>ys. Array_map f xs = Inr ys"
  by (induction xs) auto

lemma get_total: "v \<noteq> JUndefined \<Longrightarrow> v \<noteq> JNull \<Longrightarrow> \<exists>x. get v p = Inr x"
  by (cases v) simp_all

lemma Object_keys_total: "v \<noteq> JUndefined \<Longrightarrow> v \<noteq> JNull \<Longrightarrow> \<exists>ks. Object_keys v = Inr ks"
  by (cases v) simp_all

lemma Object_keys_Inr: "Object_keys v = Inr ks \<Longrightarrow> v \<noteq> JUndefined \<and> v \<noteq> JNull"
  by (cases v) simp_all

lemma moduleEntry_total:
  assumes g: "sound_guards api" and vi: "vi \<noteq> JUndefined" "vi \<noteq> JNull"
  shows "\<exists>e. moduleEntry api vi k = Inr e"
proof -
  obtain v where v: "get vi k = Inr v" using get_total [OF vi] by blast
  show ?thesis
  proof (cases "v \<noteq> JUndefined \<and> isUpdateRepositoryStatus api v")
    case True
    then obtain kvs xs where "v = JObj kvs" "map_of kvs ''commits_behind'' = Some (JArr xs)"
      using g by (auto simp: sound_guards_def)
    with True v show ?thesis by (simp add: moduleEntry_def)
  next
    case False
    show ?thesis
    proof (cases "v \<noteq> JUndefined \<and> isSystemUpdateStatus api v")
      case True
      then obtain kvs where "v = JObj kvs" using g by (auto simp: sound_guards_def)
      with True False v show ?thesis by (simp add: moduleEntry_def)
    next
      case no: False
      with False v show ?thesis by (auto simp: moduleEntry_def)
    qed
  qed
qed

lemma moduleInfo_Inr:
  "moduleInfo api body = Inr r \<longleftrightarrow>
     (\<exists>res vi ks mapped. get body ''result'' = Inr res \<and> get res ''version_info'' = Inr vi \<and>
        Object_keys vi = Inr ks \<and> Array_map (moduleEntry api vi) ks = Inr mapped \<and>
        r = JArr (filter (\<lambda>m. m \<noteq> JNull) mapped))"
  by (auto simp: moduleInfo_def bind_result_Inr)

lemma moduleInfo_JNull: "moduleInfo api body \<noteq> Inr JNull"
  by (auto simp: moduleInfo_Inr)

lemma has_version_info_iff:
  "has_version_info body \<longleftrightarrow>
     (\<exists>res vi. get body ''result'' = Inr res \<and> get res ''version_info'' = Inr vi \<and>
        vi \<noteq> JUndefined \<and> vi \<noteq> JNull)"
  by (auto simp: has_version_info_def bind_result_Inr split: sum.splits)

lemma moduleInfo_total:
  assumes g: "sound_guards api"
  shows "(\<exists>es. moduleInfo api body = Inr (JArr es)) \<longleftrightarrow> has_version_info body"
proof
  assume "\<exists>es. moduleInfo api body = Inr (JArr es)"
  then show "has_version_info body"
    by (auto simp: moduleInfo_Inr has_version_info_iff dest: Object_keys_Inr)
next
  assume "has_version_info body"
  then obtain res vi where r: "get body ''result'' = Inr res" "get res ''version_info'' = Inr vi"
      and vi: "vi \<noteq> JUndefined" "vi \<noteq> JNull"
    by (auto simp: has_version_info_iff)
  obtain ks where ks: "Object_keys vi = Inr ks" using Object_keys_total [OF vi] by blast
  have "\<forall>k\<in>set ks. \<exists>e. moduleEntry api vi k = Inr e"
    using moduleEntry_total [OF g vi] by blast
  then obtain mapped where "Array_map (moduleEntry api vi) ks = Inr mapped"
    using Array_map_total by blast
  with r ks show "\<exists>es. moduleInfo api body = Inr (JArr es)"
    by (simp add: moduleInfo_def)
qed

lemma checkForUpdates_result:
  "fst (checkForUpdates api this refresh w) =
     Inr (case network w \<lparr>method = POST, url = updateStatusURL this refresh\<rparr> of
            Rejects e \<Rightarrow> JNull
          | Fulfils resp \<Rightarrow>
              if \<not> ok resp then JNull
              else (case json resp of
                      None \<Rightarrow> JNull
                    | Some body \<Rightarrow> (case moduleInfo api body of Inl e \<Rightarrow> JNull | Inr v \<Rightarrow> v)))"
  by (simp add: checkForUpdates_def fetch_def Let_def response_json_def moduleInfo_def
      split: fetch_outcome.splits option.splits sum.splits)

lemma checkForUpdates_requests:
  "requests (snd (snd (checkForUpdates api this refresh w))) =
     requests w @ [\<lparr>method = POST, url = updateStatusURL this refresh\<rparr>]"
  by (simp add: checkForUpdates_def fetch_def Let_def)

lemma updateStatusURL_space: "CHR '' '' \<in> set (updateStatusURL this refresh)"
  by (simp add: updateStatusURL_def)

lemma testConnection_eq:
  "testConnection this w =
     (Inr (case network w \<lparr>method = GET, url = buildConnectionURL this False\<rparr> of
             Rejects e \<Rightarrow> False | Fulfils r \<Rightarrow> ok r),
      this,
      w\<lparr>requests := requests w @ [\<lparr>method = GET, url = buildConnectionURL this False\<rparr>]\<rparr>)"
  by (simp add: testConnection_def fetch_def Let_def split: fetch_outcome.splits)

lemma sound_guards_spec: "sound_guards RemoteAPI_spec"
  by (auto simp: sound_guards_def RemoteAPI_spec_def isUpdateRepositoryStatus_spec_def
      isSystemUpdateStatus_spec_def split: jsval.splits option.splits)

lemma all2_Array_map:
  "list_all2 (\<lambda>x y. f x = Inr y) xs ys \<Longrightarrow> Array_map f xs = Inr ys"
  by (induction xs ys rule: list_all2_induct) simp_all

lemma moduleInfo_settles:
  assumes g: "sound_guards api"
  shows "(case moduleInfo api b of Inl e \<Rightarrow> JNull | Inr v \<Rightarrow> v) = JNull
           \<longleftrightarrow> \<not> has_version_info b"
proof (cases "moduleInfo api b")
  case (Inl e)
  then have "\<not> (\<exists>es. moduleInfo api b = Inr (JArr es))" by simp
  then have "\<not> has_version_info b" using moduleInfo_total [OF g] by blast
  with Inl show ?thesis by simp
next
  case (Inr v)
  then obtain es where v: "v = JArr es" by (auto simp: moduleInfo_Inr)
  with Inr have "has_version_info b" using moduleInfo_total [OF g] by blast
  with Inr v show ?thesis by simp
qed

lemma moduleInfo_of_mapping:
  assumes res: "get body ''result'' = Inr res" and vi: "get res ''version_info'' = Inr (JObj vi)"
  shows "moduleInfo api body = Inr r \<longleftrightarrow>
     (\<exists>mapped. list_all2 (\<lambda>k m. moduleEntry api (JObj vi) k = Inr m) (map fst vi) mapped \<and>
        r = JArr (filter (\<lambda>m. m \<noteq> JNull) mapped))"
  using res vi
  by (auto simp: moduleInfo_def bind_result_Inr dest: Array_map_all2 all2_Array_map)

lemma moduleEntry_shape:
  assumes g: "sound_guards api" and e: "moduleEntry api vi k = Inr e" and n: "e \<noteq> JNull"
  shows "(\<exists>l r c. e = JObj [(''local'', l), (''remote'', r), (''commits_behind'', JNum (int c))])
         \<or> (\<exists>pl. e = JObj [(''packages'', pl)])"
proof -
  from moduleEntry_Inr [OF e n] obtain v where
    c: "(isUpdateRepositoryStatus api v \<and>
          (\<exists>l r b n. get v ''version'' = Inr l \<and> get v ''remote_version'' = Inr r \<and>
             get v ''commits_behind'' = Inr b \<and> get b ''length'' = Inr n \<and>
             e = JObj [(''local'', l), (''remote'', r), (''commits_behind'', n)])) \<or>
        (\<exists>pl. e = JObj [(''packages'', pl)])"
    by blast
  then show ?thesis
  proof
    assume r: "isUpdateRepositoryStatus api v \<and>
          (\<exists>l r b n. get v ''version'' = Inr l \<and> get v ''remote_version'' = Inr r \<and>
             get v ''commits_behind'' = Inr b \<and> get b ''length'' = Inr n \<and>
             e = JObj [(''local'', l), (''remote'', r), (''commits_behind'', n)])"
    then have "isUpdateRepositoryStatus api v" by blast
    with g obtain kvs xs where v: "v = JObj kvs" "map_of kvs ''commits_behind'' = Some (JArr xs)"
      unfolding sound_guards_def by blast
    from r v show ?thesis by auto
  next
    assume "\<exists>pl. e = JObj [(''packages'', pl)]"
    then show ?thesis by blast
  qed
qed

lemma moduleEntry_kept:
  assumes g: "sound_guards api" and e: "moduleEntry api (JObj vi) k = Inr e" and n: "e \<noteq> JNull"
  shows "\<exists>v. map_of vi k = Some v \<and> v \<noteq> JUndefined \<and> (\<forall>b. v \<noteq> JBool b)"
proof -
  from moduleEntry_Inr [OF e n] obtain v where v: "get (JObj vi) k = Inr v" "v \<noteq> JUndefined"
    and s: "isUpdateRepositoryStatus api v \<or> isSystemUpdateStatus api v" by blast
  from s g have "\<exists>kvs. v = JObj kvs" by (auto simp: sound_guards_def)
  moreover from v have "map_of vi k = Some v" by (auto split: option.splits)
  ultimately show ?thesis using v by auto
qed

section \<open>The request of the update check\<close>

text \<open>
  C1. The update check issues a POST to the REST base URL followed by a path and query
  for the update status. Evaluated for the adapter of \<^verbatim>\<open>http://mainsail.local\<close> and
  \<^verbatim>\<open>refresh = true\<close>, the URL that the source requests has blanks around the
  slash, the question mark and the equals sign, and so differs from the base URL followed
  by \<^verbatim>\<open>/machine/update_status?refresh=true\<close>.
\<close>

theorem checkForUpdates_url_has_spaces:
  "requests (snd (snd (checkForUpdates RemoteAPI_spec mainsail (Some True)
      (fresh_world unreachable)))) =
     [\<lparr>method = POST,
       url = ''http://mainsail.local/machine/update / status ? refresh = true''\<rparr>] \<and>
   ''http://mainsail.local/machine/update / status ? refresh = true'' \<noteq>
     buildConnectionURL mainsail False @ ''/machine/update_status?refresh=true''"
  by (simp add: checkForUpdates_def fetch_def Let_def updateStatusURL_def fresh_world_def
      mainsail_def MoonrakerRemotePrinter_def buildConnectionURL_def String_endsWith_def)

section \<open>The connection test\<close>

text \<open>
  C5. The connection test issues one GET to the REST base URL. It settles to
  \<^verbatim>\<open>true\<close> exactly when that request is answered by a successful response, to
  \<^verbatim>\<open>false\<close> exactly when the request is rejected or answered by a response that is
  not successful; it never throws, and it leaves no rejection unhandled.
\<close>

theorem testConnection_true_iff_ok:
  "(fst (testConnection this w) = Inr True \<longleftrightarrow>
      (\<exists>r. network w \<lparr>method = GET, url = buildConnectionURL this False\<rparr> = Fulfils r \<and> ok r)) \<and>
   (fst (testConnection this w) = Inr False \<longleftrightarrow>
      (\<exists>e. network w \<lparr>method = GET, url = buildConnectionURL this False\<rparr> = Rejects e) \<or>
      (\<exists>r. network w \<lparr>method = GET, url = buildConnectionURL this False\<rparr> = Fulfils r \<and> \<not> ok r)) \<and>
   (\<forall>e. fst (testConnection this w) \<noteq> Inl e) \<and>
   requests (snd (snd (testConnection this w))) =
     requests w @ [\<lparr>method = GET, url = buildConnectionURL this False\<rparr>] \<and>
   unhandled (snd (snd (testConnection this w))) = unhandled w"
  by (auto simp: testConnection_eq split: fetch_outcome.splits)

theorem testConnection_true_iff_ok_witness:
  "fst (testConnection mainsail (fresh_world unreachable)) = Inr False \<and>
   fst (testConnection mainsail (fresh_world (answering \<lparr>ok = False, json = None\<rparr>)))
     = Inr False \<and>
   fst (testConnection mainsail (fresh_world (answering \<lparr>ok = True, json = None\<rparr>)))
     = Inr True \<and>
   requests (snd (snd (testConnection mainsail (fresh_world unreachable)))) =
     [\<lparr>method = GET, url = ''http://mainsail.local''\<rparr>]"
proof -
  have b: "buildConnectionURL mainsail False = ''http://mainsail.local''"
    by (simp add: mainsail_def MoonrakerRemotePrinter_def buildConnectionURL_def
        String_endsWith_def)
  show ?thesis
    using testConnection_true_iff_ok [of mainsail "fresh_world unreachable"]
      testConnection_true_iff_ok
        [of mainsail "fresh_world (answering \<lparr>ok = False, json = None\<rparr>)"]
      testConnection_true_iff_ok
        [of mainsail "fresh_world (answering \<lparr>ok = True, json = None\<rparr>)"]
    by (simp add: b fresh_world_def unreachable_def answering_def)
qed

section \<open>The control commands\<close>

text \<open>
  C7. Each control command issues a POST to its fixed path under the REST base URL and
  returns no value without throwing. Evaluated on a network that rejects every request:
  the promise of the request is dropped with no handler, so its rejection is left
  unhandled, for each of the three commands.
\<close>

theorem control_commands_unhandled_rejection:
  "fst (emergencyStop mainsail (fresh_world unreachable)) = Inr () \<and>
   requests (snd (snd (emergencyStop mainsail (fresh_world unreachable)))) =
     [\<lparr>method = POST, url = ''http://mainsail.local/printer/emergency_stop''\<rparr>] \<and>
   unhandled (snd (snd (emergencyStop mainsail (fresh_world unreachable)))) = [TypeError] \<and>
   fst (restart mainsail (fresh_world unreachable)) = Inr () \<and>
   requests (snd (snd (restart mainsail (fresh_world unreachable)))) =
     [\<lparr>method = POST, url = ''http://mainsail.local/printer/restart''\<rparr>] \<and>
   unhandled (snd (snd (restart mainsail (fresh_world unreachable)))) = [TypeError] \<and>
   fst (firmwareRestart mainsail (fresh_world unreachable)) = Inr () \<and>
   requests (snd (snd (firmwareRestart mainsail (fresh_world unreachable)))) =
     [\<lparr>method = POST, url = ''http://mainsail.local/printer/firmware_restart''\<rparr>] \<and>
   unhandled (snd (snd (firmwareRestart mainsail (fresh_world unreachable)))) = [TypeError]"
  by (simp add: emergencyStop_def restart_def firmwareRestart_def fetch_def floating_def
      fresh_world_def unreachable_def mainsail_def MoonrakerRemotePrinter_def
      buildConnectionURL_def String_endsWith_def)

section \<open>The entries of the update check\<close>

lemma scenario_result:
  "fst (checkForUpdates RemoteAPI_spec mainsail None scenario_world) = Inr (JArr scenario_entries)"
  by (simp add: checkForUpdates_result scenario_world_def fresh_world_def answering_def
      ok_json_def envelope_def moduleInfo_def moduleEntry_def RemoteAPI_spec_def
      isUpdateRepositoryStatus_spec_def isSystemUpdateStatus_spec_def scenario_modules_def
      scenario_entries_def)

text \<open>
  C3, as stated, fails on the repository variant: for the klipper, moonraker, system
  payload the update check returns the two entries of the source, and the first of them,
  which carries its count under \<^verbatim>\<open>commits_behind\<close>, is neither of the two variants of
  the result type.
\<close>

theorem checkForUpdates_entry_not_variant:
  "fst (checkForUpdates RemoteAPI_spec mainsail None scenario_world)
     = Inr (JArr scenario_entries) \<and>
   \<not> UpdateModuleEntry_spec (scenario_entries ! 0)"
  by (simp add: scenario_result)
     (simp add: scenario_entries_def UpdateModuleEntry_spec_def)

text \<open>
  C3, amended, with the guards modelled from the spec. Let the update check be answered by
  a response whose parsed body carries the mapping \<open>vi\<close> under
  \<^verbatim>\<open>result.version_info\<close>. When the update check returns a sequence, that sequence is
  no longer than the number of keys of \<open>vi\<close>; every entry of it is an object with
  \<^verbatim>\<open>local\<close>, \<^verbatim>\<open>remote\<close> and a count under \<^verbatim>\<open>commits_behind\<close>, or an object
  with \<^verbatim>\<open>packages\<close>; and the entries are, in order, the entries of a subsequence of the
  keys of \<open>vi\<close>, none of whose raw values is \<^verbatim>\<open>undefined\<close> or a boolean.
\<close>

theorem checkForUpdates_entries:
  assumes net: "network w \<lparr>method = POST, url = updateStatusURL this refresh\<rparr> = Fulfils resp"
    and body: "json resp = Some body"
    and res: "get body ''result'' = Inr res"
    and vi: "get res ''version_info'' = Inr (JObj vi)"
    and out: "fst (checkForUpdates RemoteAPI_spec this refresh w) = Inr (JArr es)"
  shows "length es \<le> length vi \<and>
     (\<forall>e\<in>set es.
        (\<exists>l r c. e = JObj [(''local'', l), (''remote'', r), (''commits_behind'', JNum (int c))])
        \<or> (\<exists>pl. e = JObj [(''packages'', pl)])) \<and>
     (\<exists>ks. subseq ks (map fst vi) \<and>
        list_all2 (\<lambda>k e. moduleEntry RemoteAPI_spec (JObj vi) k = Inr e \<and>
            (\<exists>v. map_of vi k = Some v \<and> v \<noteq> JUndefined \<and> (\<forall>b. v \<noteq> JBool b))) ks es)"
proof -
  note g = sound_guards_spec
  from out net body have "ok resp" and "moduleInfo RemoteAPI_spec body = Inr (JArr es)"
    by (auto simp: checkForUpdates_result split: if_splits sum.splits)
  then obtain mapped where
    m: "list_all2 (\<lambda>k m. moduleEntry RemoteAPI_spec (JObj vi) k = Inr m) (map fst vi) mapped"
    and es: "es = filter (\<lambda>m. m \<noteq> JNull) mapped"
    using moduleInfo_of_mapping [OF res vi] by auto
  from m have "length mapped = length vi" by (auto dest: list_all2_lengthD)
  then have len: "length es \<le> length vi" unfolding es by (metis length_filter_le)
  from all2_filter_subseq [OF m, of "\<lambda>m. m \<noteq> JNull"] obtain ks where
    ks: "subseq ks (map fst vi)"
    and a: "list_all2 (\<lambda>k m. moduleEntry RemoteAPI_spec (JObj vi) k = Inr m) ks es"
    unfolding es by blast
  have kept: "\<forall>e\<in>set es. e \<noteq> JNull" unfolding es by simp
  have shape: "\<forall>e\<in>set es.
        (\<exists>l r c. e = JObj [(''local'', l), (''remote'', r), (''commits_behind'', JNum (int c))])
        \<or> (\<exists>pl. e = JObj [(''packages'', pl)])"
  proof
    fix e assume e: "e \<in> set es"
    with a obtain k where k: "moduleEntry RemoteAPI_spec (JObj vi) k = Inr e"
      by (auto simp: list_all2_conv_all_nth in_set_conv_nth)
    from e kept have "e \<noteq> JNull" by blast
    from moduleEntry_shape [OF g k this]
    show "(\<exists>l r c. e = JObj [(''local'', l), (''remote'', r), (''commits_behind'', JNum (int c))])
        \<or> (\<exists>pl. e = JObj [(''packages'', pl)])" .
  qed
  have "list_all2 (\<lambda>k e. moduleEntry RemoteAPI_spec (JObj vi) k = Inr e \<and>
            (\<exists>v. map_of vi k = Some v \<and> v \<noteq> JUndefined \<and> (\<forall>b. v \<noteq> JBool b))) ks es"
    using a kept
    by (auto simp: list_all2_conv_all_nth dest!: moduleEntry_kept [OF g])
  with len shape ks show ?thesis by blast
qed

theorem checkForUpdates_entries_witness:
  "fst (checkForUpdates RemoteAPI_spec mainsail None scenario_world)
     = Inr (JArr scenario_entries) \<and>
   length scenario_entries \<le> length scenario_modules \<and>
   (\<exists>l r c. scenario_entries ! 0
      = JObj [(''local'', l), (''remote'', r), (''commits_behind'', JNum (int c))]) \<and>
   (\<exists>pl. scenario_entries ! 1 = JObj [(''packages'', pl)]) \<and>
   (\<exists>ks. subseq ks (map fst scenario_modules) \<and>
      list_all2 (\<lambda>k e. moduleEntry RemoteAPI_spec (JObj scenario_modules) k = Inr e \<and>
          (\<exists>v. map_of scenario_modules k = Some v \<and> v \<noteq> JUndefined \<and> (\<forall>b. v \<noteq> JBool b)))
        ks scenario_entries)"
proof -
  have net: "network scenario_world \<lparr>method = POST, url = updateStatusURL mainsail None\<rparr>
      = Fulfils (ok_json (envelope (JObj scenario_modules)))"
    by (simp add: scenario_world_def fresh_world_def answering_def)
  have body: "json (ok_json (envelope (JObj scenario_modules)))
      = Some (envelope (JObj scenario_modules))"
    by (simp add: ok_json_def)
  have res: "get (envelope (JObj scenario_modules)) ''result''
      = Inr (JObj [(''version_info'', JObj scenario_modules)])"
    by (simp add: envelope_def)
  have vi: "get (JObj [(''version_info'', JObj scenario_modules)]) ''version_info''
      = Inr (JObj scenario_modules)"
    by simp
  note t = checkForUpdates_entries [OF net body res vi scenario_result]
  have m0: "scenario_entries ! 0 \<in> set scenario_entries"
    and m1: "scenario_entries ! 1 \<in> set scenario_entries"
    by (simp_all add: scenario_entries_def)
  from t m0 have s0: "(\<exists>l r c. scenario_entries ! 0
        = JObj [(''local'', l), (''remote'', r), (''commits_behind'', JNum (int c))])
      \<or> (\<exists>pl. scenario_entries ! 0 = JObj [(''packages'', pl)])"
    by blast
  from t m1 have s1: "(\<exists>l r c. scenario_entries ! 1
        = JObj [(''local'', l), (''remote'', r), (''commits_behind'', JNum (int c))])
      \<or> (\<exists>pl. scenario_entries ! 1 = JObj [(''packages'', pl)])"
    by blast
  from s0 have e0: "\<exists>l r c. scenario_entries ! 0
        = JObj [(''local'', l), (''remote'', r), (''commits_behind'', JNum (int c))]"
    by (simp add: scenario_entries_def)
  from s1 have e1: "\<exists>pl. scenario_entries ! 1 = JObj [(''packages'', pl)]"
    by (simp add: scenario_entries_def)
  from t e0 e1 scenario_result show ?thesis by blast
qed

section \<open>When the update check returns null\<close>

text \<open>
  C4, as stated, fails: a successful response whose body parses, here to the empty object,
  but carries no \<^verbatim>\<open>result\<close> makes the update check return \<^verbatim>\<open>null\<close>, though the
  transport call succeeded, the status is successful and the body was parsed.
\<close>

theorem checkForUpdates_null_on_parsed_body:
  "network (fresh_world (answering (ok_json (JObj []))))
       \<lparr>method = POST, url = updateStatusURL mainsail None\<rparr> = Fulfils (ok_json (JObj [])) \<and>
   ok (ok_json (JObj [])) \<and>
   json (ok_json (JObj [])) = Some (JObj []) \<and>
   fst (checkForUpdates RemoteAPI_spec mainsail None
          (fresh_world (answering (ok_json (JObj []))))) = Inr JNull"
  by (simp add: checkForUpdates_result fresh_world_def answering_def ok_json_def moduleInfo_def)

text \<open>
  C4, amended. With sound guards, the update check returns \<^verbatim>\<open>null\<close> exactly when the
  request is rejected, or the response is not successful, or parsing the body fails, or
  the parsed body carries no \<^verbatim>\<open>result.version_info\<close> to enumerate (reading it throws,
  or it is \<^verbatim>\<open>undefined\<close> or \<^verbatim>\<open>null\<close>). It never throws; whenever it does not return
  \<^verbatim>\<open>null\<close> it returns a sequence; and for an empty \<^verbatim>\<open>version_info\<close> mapping it
  returns the empty sequence.
\<close>

theorem checkForUpdates_null_iff:
  assumes g: "sound_guards api"
  shows "(fst (checkForUpdates api this refresh w) = Inr JNull \<longleftrightarrow>
      (\<exists>e. network w \<lparr>method = POST, url = updateStatusURL this refresh\<rparr> = Rejects e) \<or>
      (\<exists>resp. network w \<lparr>method = POST, url = updateStatusURL this refresh\<rparr> = Fulfils resp \<and>
         (\<not> ok resp \<or> json resp = None \<or>
          (\<exists>body. json resp = Some body \<and> \<not> has_version_info body)))) \<and>
     (fst (checkForUpdates api this refresh w) \<noteq> Inr JNull \<longrightarrow>
        (\<exists>es. fst (checkForUpdates api this refresh w) = Inr (JArr es))) \<and>
     (network w \<lparr>method = POST, url = updateStatusURL this refresh\<rparr> = Fulfils resp \<and>
      ok resp \<and> json resp = Some body \<and> get body ''result'' = Inr res \<and>
      get res ''version_info'' = Inr (JObj []) \<longrightarrow>
        fst (checkForUpdates api this refresh w) = Inr (JArr []))"
proof -
  have arr: "\<And>b v. moduleInfo api b = Inr v \<Longrightarrow> \<exists>es. v = JArr es"
    by (auto simp: moduleInfo_Inr)
  have c1: "fst (checkForUpdates api this refresh w) = Inr JNull \<longleftrightarrow>
      (\<exists>e. network w \<lparr>method = POST, url = updateStatusURL this refresh\<rparr> = Rejects e) \<or>
      (\<exists>resp. network w \<lparr>method = POST, url = updateStatusURL this refresh\<rparr> = Fulfils resp \<and>
         (\<not> ok resp \<or> json resp = None \<or>
          (\<exists>body. json resp = Some body \<and> \<not> has_version_info body)))"
  proof (cases "network w \<lparr>method = POST, url = updateStatusURL this refresh\<rparr>")
    case (Rejects e)
    then show ?thesis by (simp add: checkForUpdates_result)
  next
    case (Fulfils resp)
    show ?thesis
    proof (cases "json resp")
      case None
      with Fulfils show ?thesis by (simp add: checkForUpdates_result)
    next
      case (Some body)
      with Fulfils show ?thesis
        by (simp add: checkForUpdates_result moduleInfo_settles [OF g])
    qed
  qed
  have c2: "fst (checkForUpdates api this refresh w) \<noteq> Inr JNull \<longrightarrow>
        (\<exists>es. fst (checkForUpdates api this refresh w) = Inr (JArr es))"
    using arr
    by (cases "network w \<lparr>method = POST, url = updateStatusURL this refresh\<rparr>")
       (auto simp: checkForUpdates_result split: option.splits sum.splits)
  have c3: "network w \<lparr>method = POST, url = updateStatusURL this refresh\<rparr> = Fulfils resp \<and>
      ok resp \<and> json resp = Some body \<and> get body ''result'' = Inr res \<and>
      get res ''version_info'' = Inr (JObj []) \<longrightarrow>
        fst (checkForUpdates api this refresh w) = Inr (JArr [])"
    by (simp add: checkForUpdates_result moduleInfo_def)
  from c1 c2 c3 show ?thesis by blast
qed

theorem checkForUpdates_null_iff_witness:
  "fst (checkForUpdates RemoteAPI_spec mainsail None (fresh_world unreachable)) = Inr JNull \<and>
   fst (checkForUpdates RemoteAPI_spec mainsail None
          (fresh_world (answering \<lparr>ok = False, json = Some (envelope (JObj []))\<rparr>)))
     = Inr JNull \<and>
   fst (checkForUpdates RemoteAPI_spec mainsail None
          (fresh_world (answering \<lparr>ok = True, json = None\<rparr>))) = Inr JNull \<and>
   fst (checkForUpdates RemoteAPI_spec mainsail None
          (fresh_world (answering (ok_json (envelope (JObj [])))))) = Inr (JArr [])"
proof -
  note t = checkForUpdates_null_iff [OF sound_guards_spec, of mainsail None]
  have a: "fst (checkForUpdates RemoteAPI_spec mainsail None (fresh_world unreachable))
      = Inr JNull"
    using t [of "fresh_world unreachable"]
    by (simp add: fresh_world_def unreachable_def)
  have b: "fst (checkForUpdates RemoteAPI_spec mainsail None
          (fresh_world (answering \<lparr>ok = False, json = Some (envelope (JObj []))\<rparr>)))
     = Inr JNull"
    using t [of "fresh_world (answering \<lparr>ok = False, json = Some (envelope (JObj []))\<rparr>)"]
    by (simp add: fresh_world_def answering_def)
  have c: "fst (checkForUpdates RemoteAPI_spec mainsail None
          (fresh_world (answering \<lparr>ok = True, json = None\<rparr>))) = Inr JNull"
    using t [of "fresh_world (answering \<lparr>ok = True, json = None\<rparr>)"]
    by (simp add: fresh_world_def answering_def)
  have d: "fst (checkForUpdates RemoteAPI_spec mainsail None
          (fresh_world (answering (ok_json (envelope (JObj [])))))) = Inr (JArr [])"
    using t [of "fresh_world (answering (ok_json (envelope (JObj []))))"
        "ok_json (envelope (JObj []))" "envelope (JObj [])" "JObj [(''version_info'', JObj [])]"]
    by (simp add: fresh_world_def answering_def ok_json_def envelope_def)
  from a b c d show ?thesis by blast
qed

section \<open>How a raw module is projected\<close>

text \<open>
  C6, as stated, fails on the name of the count: for the klipper, moonraker, system
  payload the source emits the count under the key \<^verbatim>\<open>commits_behind\<close>, so its result
  is not the sequence with the key \<^verbatim>\<open>commitsBehind\<close>.
\<close>

theorem checkForUpdates_scenario_key:
  "fst (checkForUpdates RemoteAPI_spec mainsail None scenario_world) \<noteq>
     Inr (JArr [JObj [(''local'', JStr ''v1''), (''remote'', JStr ''v2''),
                      (''commitsBehind'', JNum 3)],
                JObj [(''packages'', JArr [JStr ''a'', JStr ''b''])]])"
  by (simp add: scenario_result scenario_entries_def)

text \<open>
  C6, amended, with the guards modelled from the spec. A raw value that has
  \<^verbatim>\<open>remote_version\<close> and an array under \<^verbatim>\<open>commits_behind\<close> is projected to the
  object with \<^verbatim>\<open>local\<close> (its \<^verbatim>\<open>version\<close>), \<^verbatim>\<open>remote\<close> (its
  \<^verbatim>\<open>remote_version\<close>) and \<^verbatim>\<open>commits_behind\<close> (the length of the array, nothing
  else of it). A raw value that is not of that shape and has \<^verbatim>\<open>package_list\<close> is
  projected to the object with \<^verbatim>\<open>packages\<close>. A boolean is dropped. The result lists
  the entries that are not dropped in the key enumeration order of the mapping; for the
  klipper, moonraker, system payload it is the klipper entry with \<^verbatim>\<open>commits_behind\<close>
  3, then the moonraker entry.
\<close>

theorem moduleEntry_projection:
  "(map_of vi k1 = Some (JObj kvs1) \<and> map_of kvs1 ''remote_version'' = Some r \<and>
    map_of kvs1 ''commits_behind'' = Some (JArr xs) \<longrightarrow>
      moduleEntry RemoteAPI_spec (JObj vi) k1 =
        Inr (JObj [(''local'', (case map_of kvs1 ''version'' of None \<Rightarrow> JUndefined | Some l \<Rightarrow> l)),
                   (''remote'', r),
                   (''commits_behind'', JNum (int (length xs)))])) \<and>
   (map_of vi k2 = Some (JObj kvs2) \<and> \<not> isUpdateRepositoryStatus_spec (JObj kvs2) \<and>
    map_of kvs2 ''package_list'' = Some pl \<longrightarrow>
      moduleEntry RemoteAPI_spec (JObj vi) k2 = Inr (JObj [(''packages'', pl)])) \<and>
   (map_of vi k3 = Some (JBool b) \<longrightarrow> moduleEntry RemoteAPI_spec (JObj vi) k3 = Inr JNull) \<and>
   (network w \<lparr>method = POST, url = updateStatusURL this refresh\<rparr> = Fulfils resp \<and>
    ok resp \<and> json resp = Some body \<and> get body ''result'' = Inr res \<and>
    get res ''version_info'' = Inr (JObj vi) \<longrightarrow>
      (\<exists>mapped.
         list_all2 (\<lambda>k m. moduleEntry RemoteAPI_spec (JObj vi) k = Inr m) (map fst vi) mapped \<and>
         fst (checkForUpdates RemoteAPI_spec this refresh w) =
           Inr (JArr (filter (\<lambda>m. m \<noteq> JNull) mapped)))) \<and>
   fst (checkForUpdates RemoteAPI_spec mainsail None scenario_world) = Inr (JArr scenario_entries)"
proof -
  have repo: "map_of vi k1 = Some (JObj kvs1) \<and> map_of kvs1 ''remote_version'' = Some r \<and>
    map_of kvs1 ''commits_behind'' = Some (JArr xs) \<longrightarrow>
      moduleEntry RemoteAPI_spec (JObj vi) k1 =
        Inr (JObj [(''local'', (case map_of kvs1 ''version'' of None \<Rightarrow> JUndefined | Some l \<Rightarrow> l)),
                   (''remote'', r),
                   (''commits_behind'', JNum (int (length xs)))])"
    by (simp add: moduleEntry_def RemoteAPI_spec_def isUpdateRepositoryStatus_spec_def)
  have sys: "map_of vi k2 = Some (JObj kvs2) \<and> \<not> isUpdateRepositoryStatus_spec (JObj kvs2) \<and>
    map_of kvs2 ''package_list'' = Some pl \<longrightarrow>
      moduleEntry RemoteAPI_spec (JObj vi) k2 = Inr (JObj [(''packages'', pl)])"
    by (simp add: moduleEntry_def RemoteAPI_spec_def isSystemUpdateStatus_spec_def)
  have bool: "map_of vi k3 = Some (JBool b) \<longrightarrow>
      moduleEntry RemoteAPI_spec (JObj vi) k3 = Inr JNull"
    by (simp add: moduleEntry_def RemoteAPI_spec_def isUpdateRepositoryStatus_spec_def
        isSystemUpdateStatus_spec_def)
  have order: "network w \<lparr>method = POST, url = updateStatusURL this refresh\<rparr> = Fulfils resp \<and>
    ok resp \<and> json resp = Some body \<and> get body ''result'' = Inr res \<and>
    get res ''version_info'' = Inr (JObj vi) \<longrightarrow>
      (\<exists>mapped.
         list_all2 (\<lambda>k m. moduleEntry RemoteAPI_spec (JObj vi) k = Inr m) (map fst vi) mapped \<and>
         fst (checkForUpdates RemoteAPI_spec this refresh w) =
           Inr (JArr (filter (\<lambda>m. m \<noteq> JNull) mapped)))"
  proof (intro impI, elim conjE)
    assume net: "network w \<lparr>method = POST, url = updateStatusURL this refresh\<rparr> = Fulfils resp"
      and ok: "ok resp" and body: "json resp = Some body"
      and res: "get body ''result'' = Inr res"
      and vi: "get res ''version_info'' = Inr (JObj vi)"
    from res vi have "has_version_info body" by (auto simp: has_version_info_iff)
    then obtain es where es: "moduleInfo RemoteAPI_spec body = Inr (JArr es)"
      using moduleInfo_total [OF sound_guards_spec] by blast
    then obtain mapped where
      m: "list_all2 (\<lambda>k m. moduleEntry RemoteAPI_spec (JObj vi) k = Inr m) (map fst vi) mapped"
      and f: "JArr es = JArr (filter (\<lambda>m. m \<noteq> JNull) mapped)"
      using moduleInfo_of_mapping [OF res vi] by blast
    from net ok body es f
    have "fst (checkForUpdates RemoteAPI_spec this refresh w) =
           Inr (JArr (filter (\<lambda>m. m \<noteq> JNull) mapped))"
      by (simp add: checkForUpdates_result)
    with m show "\<exists>mapped.
         list_all2 (\<lambda>k m. moduleEntry RemoteAPI_spec (JObj vi) k = Inr m) (map fst vi) mapped \<and>
         fst (checkForUpdates RemoteAPI_spec this refresh w) =
           Inr (JArr (filter (\<lambda>m. m \<noteq> JNull) mapped))"
      by blast
  qed
  from repo sys bool order scenario_result show ?thesis by blast
qed

theorem moduleEntry_projection_witness:
  "moduleEntry RemoteAPI_spec (JObj scenario_modules) ''klipper'' =
     Inr (JObj [(''local'', JStr ''v1''), (''remote'', JStr ''v2''), (''commits_behind'', JNum 3)]) \<and>
   moduleEntry RemoteAPI_spec (JObj scenario_modules) ''moonraker'' =
     Inr (JObj [(''packages'', JArr [JStr ''a'', JStr ''b''])]) \<and>
   moduleEntry RemoteAPI_spec (JObj scenario_modules) ''system'' = Inr JNull \<and>
   (\<exists>mapped.
      list_all2 (\<lambda>k m. moduleEntry RemoteAPI_spec (JObj scenario_modules) k = Inr m)
        (map fst scenario_modules) mapped \<and>
      fst (checkForUpdates RemoteAPI_spec mainsail None scenario_world) =
        Inr (JArr (filter (\<lambda>m. m \<noteq> JNull) mapped)))"
proof -
  let ?kl = "[(''version'', JStr ''v1''), (''remote_version'', JStr ''v2''),
              (''commits_behind'', JArr [JNum 1, JNum 2, JNum 3])]"
  let ?mo = "[(''package_list'', JArr [JStr ''a'', JStr ''b''])]"
  have h1: "map_of scenario_modules ''klipper'' = Some (JObj ?kl) \<and>
      map_of ?kl ''remote_version'' = Some (JStr ''v2'') \<and>
      map_of ?kl ''commits_behind'' = Some (JArr [JNum 1, JNum 2, JNum 3])"
    by (simp add: scenario_modules_def)
  have h2: "map_of scenario_modules ''moonraker'' = Some (JObj ?mo) \<and>
      \<not> isUpdateRepositoryStatus_spec (JObj ?mo) \<and>
      map_of ?mo ''package_list'' = Some (JArr [JStr ''a'', JStr ''b''])"
    by (simp add: scenario_modules_def isUpdateRepositoryStatus_spec_def)
  have h3: "map_of scenario_modules ''system'' = Some (JBool True)"
    by (simp add: scenario_modules_def)
  have h4: "network scenario_world \<lparr>method = POST, url = updateStatusURL mainsail None\<rparr>
        = Fulfils (ok_json (envelope (JObj scenario_modules))) \<and>
      ok (ok_json (envelope (JObj scenario_modules))) \<and>
      json (ok_json (envelope (JObj scenario_modules)))
        = Some (envelope (JObj scenario_modules)) \<and>
      get (envelope (JObj scenario_modules)) ''result''
        = Inr (JObj [(''version_info'', JObj scenario_modules)]) \<and>
      get (JObj [(''version_info'', JObj scenario_modules)]) ''version_info''
        = Inr (JObj scenario_modules)"
    by (simp add: scenario_world_def fresh_world_def answering_def ok_json_def envelope_def)
  note t = moduleEntry_projection
      [of scenario_modules "''klipper''" ?kl "JStr ''v2''" "[JNum 1, JNum 2, JNum 3]"
          "''moonraker''" ?mo "JArr [JStr ''a'', JStr ''b'']" "''system''" True
          scenario_world mainsail None "ok_json (envelope (JObj scenario_modules))"
          "envelope (JObj scenario_modules)" "JObj [(''version_info'', JObj scenario_modules)]"]
  have a: "moduleEntry RemoteAPI_spec (JObj scenario_modules) ''klipper'' =
     Inr (JObj [(''local'', JStr ''v1''), (''remote'', JStr ''v2''), (''commits_behind'', JNum 3)])"
    using mp [OF t [THEN conjunct1] h1] by simp
  have b: "moduleEntry RemoteAPI_spec (JObj scenario_modules) ''moonraker'' =
     Inr (JObj [(''packages'', JArr [JStr ''a'', JStr ''b''])])"
    using mp [OF t [THEN conjunct2, THEN conjunct1] h2] by simp
  have c: "moduleEntry RemoteAPI_spec (JObj scenario_modules) ''system'' = Inr JNull"
    using mp [OF t [THEN conjunct2, THEN conjunct2, THEN conjunct1] h3] by simp
  note d = mp [OF t [THEN conjunct2, THEN conjunct2, THEN conjunct2, THEN conjunct1] h4]
  from a b c d show ?thesis by blast
qed

section \<open>Opening the socket session\<close>

text \<open>
  C8, as stated, fails. For the address \<^verbatim>\<open>http://x/\<close> the socket URL is not the address
  with the scheme rewritten followed by \<^verbatim>\<open>/websocket\<close>: the builder strips the
  trailing slash first. And when the socket constructor throws, no handle is returned and
  nothing is stored.
\<close>

theorem openSocketConnection_strips_or_throws:
  "sockets (snd (snd (openSocketConnection (MoonrakerRemotePrinter ''http://x/'' None)
      (fresh_world unreachable)))) = [\<lparr>ws_url = ''ws://x/websocket'', ws_closed = False\<rparr>] \<and>
   ''ws://x/websocket'' \<noteq> ''ws://x/'' @ ''/websocket'' \<and>
   fst (openSocketConnection mainsail offline_world) = Inl SyntaxError \<and>
   socket (fst (snd (openSocketConnection mainsail offline_world))) = None \<and>
   sockets (snd (snd (openSocketConnection mainsail offline_world))) = []"
  by (simp add: openSocketConnection_def new_WS_def fresh_world_def offline_world_def
      mainsail_def MoonrakerRemotePrinter_def buildConnectionURL_def String_endsWith_def
      String_slice_def)

text \<open>
  C8, amended. Let the configured address begin with \<^verbatim>\<open>http\<close>. The socket URL is the
  address with that leading \<^verbatim>\<open>http\<close> rewritten to \<^verbatim>\<open>ws\<close> and nothing after it
  rewritten, one trailing slash stripped, and \<^verbatim>\<open>/websocket\<close> appended. When the socket
  constructor accepts this URL, opening the socket connection creates a socket with it,
  returns its handle, which is a new one, and stores that handle in the adapter whatever
  was stored before; the sockets created earlier stay as they were, none is closed. When
  the constructor throws, the operation rejects, the adapter keeps what it had stored and
  no socket is created.
\<close>

theorem openSocketConnection_stores_new_socket:
  assumes addr: "connectionAddress this = ''http'' @ r"
  shows "(WS_accepts w ((if last (''ws'' @ r) = CHR ''/'' then butlast (''ws'' @ r)
                         else ''ws'' @ r) @ ''/websocket'') \<longrightarrow>
       fst (openSocketConnection this w) = Inr (length (sockets w)) \<and>
       fst (snd (openSocketConnection this w)) = this\<lparr>socket := Some (length (sockets w))\<rparr> \<and>
       sockets (snd (snd (openSocketConnection this w))) =
         sockets w @ [\<lparr>ws_url = (if last (''ws'' @ r) = CHR ''/'' then butlast (''ws'' @ r)
                                  else ''ws'' @ r) @ ''/websocket'',
                       ws_closed = False\<rparr>]) \<and>
     (\<not> WS_accepts w ((if last (''ws'' @ r) = CHR ''/'' then butlast (''ws'' @ r)
                         else ''ws'' @ r) @ ''/websocket'') \<longrightarrow>
       (\<exists>e. fst (openSocketConnection this w) = Inl e) \<and>
       fst (snd (openSocketConnection this w)) = this \<and>
       sockets (snd (snd (openSocketConnection this w))) = sockets w)"
proof -
  have "this = this\<lparr>connectionAddress := ''http'' @ r\<rparr>" using addr by simp
  then have "buildConnectionURL this True =
      buildConnectionURL (this\<lparr>connectionAddress := ''http'' @ r\<rparr>) True"
    by simp
  also have "\<dots> = buildConnectionURL (this\<lparr>connectionAddress := ''ws'' @ r\<rparr>) False"
    by (simp only: buildConnectionURL_websocket String_replace_at_head)
  also have "\<dots> = (if last (''ws'' @ r) = CHR ''/'' then butlast (''ws'' @ r) else ''ws'' @ r)"
    by (simp only: buildConnectionURL_rest) simp
  finally have u: "buildConnectionURL this True =
      (if last (''ws'' @ r) = CHR ''/'' then butlast (''ws'' @ r) else ''ws'' @ r)" .
  show ?thesis
    unfolding openSocketConnection_def new_WS_def u by simp
qed

theorem openSocketConnection_stores_new_socket_witness:
  "fst (openSocketConnection
     (mainsail\<lparr>connectionAddress := ''http://mainsail.local/'', socket := Some 0\<rparr>)
     (fresh_world unreachable\<lparr>sockets := [\<lparr>ws_url = ''ws://old/websocket'', ws_closed = False\<rparr>]\<rparr>))
     = Inr 1 \<and>
   socket (fst (snd (openSocketConnection
     (mainsail\<lparr>connectionAddress := ''http://mainsail.local/'', socket := Some 0\<rparr>)
     (fresh_world unreachable\<lparr>sockets := [\<lparr>ws_url = ''ws://old/websocket'', ws_closed = False\<rparr>]\<rparr>))))
     = Some 1 \<and>
   sockets (snd (snd (openSocketConnection
     (mainsail\<lparr>connectionAddress := ''http://mainsail.local/'', socket := Some 0\<rparr>)
     (fresh_world unreachable\<lparr>sockets := [\<lparr>ws_url = ''ws://old/websocket'', ws_closed = False\<rparr>]\<rparr>))))
     = [\<lparr>ws_url = ''ws://old/websocket'', ws_closed = False\<rparr>,
        \<lparr>ws_url = ''ws://mainsail.local/websocket'', ws_closed = False\<rparr>] \<and>
   fst (openSocketConnection
     (mainsail\<lparr>connectionAddress := ''http://mainsail.local/'', socket := Some 0\<rparr>)
     offline_world) = Inl SyntaxError \<and>
   socket (fst (snd (openSocketConnection
     (mainsail\<lparr>connectionAddress := ''http://mainsail.local/'', socket := Some 0\<rparr>)
     offline_world))) = Some 0"
proof -
  let ?a = "mainsail\<lparr>connectionAddress := ''http://mainsail.local/'', socket := Some 0\<rparr>"
  let ?w = "fresh_world unreachable\<lparr>sockets := [\<lparr>ws_url = ''ws://old/websocket'', ws_closed = False\<rparr>]\<rparr>"
  have addr: "connectionAddress ?a = ''http'' @ ''://mainsail.local/''" by simp
  have e: "fst (openSocketConnection ?a offline_world) = Inl SyntaxError"
    by (simp add: openSocketConnection_def new_WS_def offline_world_def)
  show ?thesis
    using openSocketConnection_stores_new_socket [OF addr, of ?w]
      openSocketConnection_stores_new_socket [OF addr, of offline_world] e
    by (simp add: fresh_world_def offline_world_def)
qed

section \<open>What the operations change in the adapter\<close>

text \<open>
  C10. The connection test, the update check and the three control commands leave the
  adapter as it was. Opening the socket connection sets the socket field to the handle it
  returns and changes no other field; when the constructor throws it changes nothing.
\<close>

theorem operations_frame:
  "fst (snd (testConnection this w)) = this \<and>
   fst (snd (checkForUpdates api this refresh w)) = this \<and>
   fst (snd (emergencyStop this w)) = this \<and>
   fst (snd (restart this w)) = this \<and>
   fst (snd (firmwareRestart this w)) = this \<and>
   (\<forall>h. fst (openSocketConnection this w) = Inr h \<longrightarrow>
      fst (snd (openSocketConnection this w)) = this\<lparr>socket := Some h\<rparr>) \<and>
   (\<forall>e. fst (openSocketConnection this w) = Inl e \<longrightarrow>
      fst (snd (openSocketConnection this w)) = this) \<and>
   connectionType (fst (snd (openSocketConnection this w))) = connectionType this \<and>
   connectionAddress (fst (snd (openSocketConnection this w))) = connectionAddress this \<and>
   connectionAPIKey (fst (snd (openSocketConnection this w))) = connectionAPIKey this"
  by (simp add: testConnection_eq checkForUpdates_def emergencyStop_def restart_def
      firmwareRestart_def openSocketConnection_def new_WS_def fetch_def Let_def)

theorem operations_frame_witness:
  "fst (openSocketConnection mainsail (fresh_world unreachable)) = Inr 0 \<and>
   fst (snd (openSocketConnection mainsail (fresh_world unreachable)))
     = mainsail\<lparr>socket := Some 0\<rparr> \<and>
   fst (openSocketConnection mainsail offline_world) = Inl SyntaxError \<and>
   fst (snd (openSocketConnection mainsail offline_world)) = mainsail \<and>
   fst (snd (testConnection mainsail offline_world)) = mainsail \<and>
   fst (snd (checkForUpdates RemoteAPI_spec mainsail None offline_world)) = mainsail \<and>
   fst (snd (emergencyStop mainsail offline_world)) = mainsail"
proof -
  have a: "fst (openSocketConnection mainsail (fresh_world unreachable)) = Inr 0"
    by (simp add: openSocketConnection_def new_WS_def fresh_world_def)
  have b: "fst (openSocketConnection mainsail offline_world) = Inl SyntaxError"
    by (simp add: openSocketConnection_def new_WS_def offline_world_def)
  show ?thesis
    using operations_frame [of mainsail "fresh_world unreachable" RemoteAPI_spec None]
      operations_frame [of mainsail offline_world RemoteAPI_spec None] a b
    by simp
qed

section \<open>The association between usage records and materials\<close>

lemma associate_options:
  "foreignKey associate = ''materialId''" "onDelete associate = RESTRICT"
  "onUpdate associate = CASCADE"
  by (simp_all add: associate_def)

lemma references_associate: "references associate m u \<longleftrightarrow> materialId u = m"
  by (simp add: references_def associate_options integer_column_def)

text \<open>
  C9, with the store modelled from the spec. Under the options that \<^verbatim>\<open>associate\<close>
  declares, deleting a material is rejected and the store is left as it was while a usage
  record references the material; and changing the identifier of a material succeeds and writes the new identifier to the \<^verbatim>\<open>materialId\<close> of every
  usage record that referenced the material, leaving the other records and the other
  attributes as they were.
\<close>

theorem associate_restricts_delete_cascades_update:
  "(m \<in> set (materials db) \<and> (\<exists>u\<in>set (material_usage db). materialId u = m) \<longrightarrow>
      destroyMaterial associate m db = (Inl ForeignKeyConstraintError, db)) \<and>
   (m \<in> set (materials db) \<longrightarrow>
      fst (updateMaterialId associate m m' db) = Inr () \<and>
      materials (snd (updateMaterialId associate m m' db)) =
        map (\<lambda>x. if x = m then m' else x) (materials db) \<and>
      material_usage (snd (updateMaterialId associate m m' db)) =
        map (\<lambda>u. if materialId u = m then u\<lparr>materialId := m'\<rparr> else u) (material_usage db))"
proof -
  have d: "m \<in> set (materials db) \<and> (\<exists>u\<in>set (material_usage db). materialId u = m) \<longrightarrow>
      destroyMaterial associate m db = (Inl ForeignKeyConstraintError, db)"
    by (auto simp: destroyMaterial_def list_ex_iff references_associate associate_options)
  have u: "m \<in> set (materials db) \<longrightarrow>
      fst (updateMaterialId associate m m' db) = Inr () \<and>
      materials (snd (updateMaterialId associate m m' db)) =
        map (\<lambda>x. if x = m then m' else x) (materials db) \<and>
      material_usage (snd (updateMaterialId associate m m' db)) =
        map (\<lambda>u. if materialId u = m then u\<lparr>materialId := m'\<rparr> else u) (material_usage db)"
    by (simp add: updateMaterialId_def references_associate associate_options
        set_integer_column_def)
  from d u show ?thesis by blast
qed

theorem associate_restricts_delete_cascades_update_witness:
  "destroyMaterial associate 1 spool_store = (Inl ForeignKeyConstraintError, spool_store) \<and>
   fst (updateMaterialId associate 1 7 spool_store) = Inr () \<and>
   materials (snd (updateMaterialId associate 1 7 spool_store)) = [7, 2] \<and>
   material_usage (snd (updateMaterialId associate 1 7 spool_store)) =
     [\<lparr>materialUsageId = 1, materialId = 7, weightUsed = 12, createdAt = 0, updatedAt = 0\<rparr>,
      \<lparr>materialUsageId = 2, materialId = 7, weightUsed = 30, createdAt = 5, updatedAt = 5\<rparr>]"
proof -
  have h1: "(1::int) \<in> set (materials spool_store) \<and>
      (\<exists>u\<in>set (material_usage spool_store). materialId u = 1)"
    by (simp add: spool_store_def)
  have h2: "(1::int) \<in> set (materials spool_store)"
    by (simp add: spool_store_def)
  note t = associate_restricts_delete_cascades_update [of 1 spool_store 7]
  have d: "destroyMaterial associate 1 spool_store = (Inl ForeignKeyConstraintError, spool_store)"
    using mp [OF t [THEN conjunct1] h1] .
  have u: "fst (updateMaterialId associate 1 7 spool_store) = Inr () \<and>
      materials (snd (updateMaterialId associate 1 7 spool_store)) = [7, 2] \<and>
      material_usage (snd (updateMaterialId associate 1 7 spool_store)) =
        [\<lparr>materialUsageId = 1, materialId = 7, weightUsed = 12, createdAt = 0, updatedAt = 0\<rparr>,
         \<lparr>materialUsageId = 2, materialId = 7, weightUsed = 30, createdAt = 5, updatedAt = 5\<rparr>]"
    using mp [OF t [THEN conjunct2] h2] by (simp add: spool_store_def)
  from d u show ?thesis by blast
qed

end
